theory Spec2Isabelle
  imports Main "HOL-Library.Word" "HOL-Library.List_Lexorder" "HOL-Library.Char_ord"
begin

section \<open>The open-handle table of the filesystem gateway (weed/filesys/wfs.go)\<close>

text \<open>
  Go panics are results of the model: an index expression outside the slice and a write
  through a nil pointer end the call with \<open>Inl\<close>.
\<close>

datatype go_panic = IndexOutOfRange | NilDereference

text \<open>
  \<open>File\<close> and \<open>FileHandle\<close> are declared in other files of the package. The handle
  table only reads \<open>file.fullpath()\<close>, kept here as a field, and writes the \<open>handle\<close>
  field of a \<open>FileHandle\<close>. A slot of \<open>wfs.handles\<close> is a \<open>*FileHandle\<close>: \<open>None\<close> is the nil
  pointer, \<open>Some h\<close> the handle object the pointer leads to. Go's \<open>int\<close> is 64 bits on
  the platforms this package builds for; a map value is an \<open>int\<close>, a handle id a
  \<open>uint64\<close>.
\<close>

record File =
  fullpath :: string

record FileHandle =
  fh_f :: File
  Uid :: "32 word"
  Gid :: "32 word"
  handle :: "64 word"

record WFS =
  handles :: "FileHandle option list"
  pathToHandleIndex :: "string \<rightharpoonup> int"

definition NewSeaweedFileSystem :: WFS where
  "NewSeaweedFileSystem = \<lparr>handles = [], pathToHandleIndex = Map.empty\<rparr>"

text \<open>
  Modelled from the spec: \<open>newFileHandle\<close>, which is outside the given sources, makes a
  handle that holds the back-reference to its File node, the owning user and group
  identifiers and a numeric handle identifier, which the caller assigns.
\<close>

definition newFileHandle :: "File \<Rightarrow> 32 word \<Rightarrow> 32 word \<Rightarrow> FileHandle" where
  "newFileHandle file uid gid = \<lparr>fh_f = file, Uid = uid, Gid = gid, handle = 0\<rparr>"

definition foundLive :: "WFS \<Rightarrow> string \<Rightarrow> go_panic + FileHandle option" where
  \<comment> \<open>\<open>index, found := wfs.pathToHandleIndex[fullpath]\<close> followed by the test
     \<open>found && wfs.handles[index] != nil\<close>: \<open>Inr (Some h)\<close> when the test holds, with the
     handle in the slot; \<open>Inr None\<close> when it fails; the index expression panics outside
     the slice.\<close>
  "foundLive wfs path =
     (case pathToHandleIndex wfs path of
        None \<Rightarrow> Inr None
      | Some index \<Rightarrow>
          if 0 \<le> index \<and> index < int (length (handles wfs))
          then Inr (handles wfs ! nat index)
          else Inl IndexOutOfRange)"

fun firstNil :: "'a option list \<Rightarrow> nat option" where
  \<comment> \<open>\<open>for i, h := range wfs.handles { if h == nil { ... return } }\<close>: the first nil slot.\<close>
  "firstNil [] = None"
| "firstNil (None # hs) = Some 0"
| "firstNil (Some h # hs) = map_option Suc (firstNil hs)"

definition placeHandle :: "WFS \<Rightarrow> File \<Rightarrow> 32 word \<Rightarrow> 32 word \<Rightarrow> FileHandle \<times> WFS" where
  \<comment> \<open>Lines 105 to 121 of wfs.go. The slot holds the pointer that is returned, so the
     identifier written after the store is the identifier of the stored handle.\<close>
  "placeHandle wfs file uid gid =
     (let fileHandle = newFileHandle file uid gid in
      case firstNil (handles wfs) of
        Some i \<Rightarrow>
          let fileHandle = fileHandle\<lparr>handle := of_nat i\<rparr> in
          (fileHandle,
           wfs\<lparr>handles := (handles wfs)[i := Some fileHandle],
               pathToHandleIndex := (pathToHandleIndex wfs)(fullpath file \<mapsto> int i)\<rparr>)
      | None \<Rightarrow>
          let n = length (handles wfs) + 1;
              fileHandle = fileHandle\<lparr>handle := word_of_int (int n - 1)\<rparr> in
          (fileHandle,
           wfs\<lparr>handles := handles wfs @ [Some fileHandle],
               pathToHandleIndex :=
                 (pathToHandleIndex wfs)(fullpath file \<mapsto> sint (handle fileHandle))\<rparr>))"

definition AcquireHandle ::
  "WFS \<Rightarrow> File \<Rightarrow> 32 word \<Rightarrow> 32 word \<Rightarrow> go_panic + (FileHandle \<times> WFS)" where
  \<comment> \<open>The test of line 98 is the test of line 93 again. Inside its branch the named
     result \<open>fileHandle\<close> is still nil when its field is assigned.\<close>
  "AcquireHandle wfs file uid gid =
     (case foundLive wfs (fullpath file) of
        Inl p \<Rightarrow> Inl p
      | Inr (Some h) \<Rightarrow> Inr (h, wfs)
      | Inr None \<Rightarrow>
          (case foundLive wfs (fullpath file) of
             Inl p \<Rightarrow> Inl p
           | Inr (Some h) \<Rightarrow> Inl NilDereference
           | Inr None \<Rightarrow> Inr (placeHandle wfs file uid gid)))"

definition ReleaseHandle :: "WFS \<Rightarrow> string \<Rightarrow> 64 word \<Rightarrow> go_panic + WFS" where
  \<comment> \<open>\<open>int(handleId)\<close> reads the \<open>uint64\<close> as a signed 64-bit value.\<close>
  "ReleaseHandle wfs path handleId =
     (let wfs = wfs\<lparr>pathToHandleIndex := (pathToHandleIndex wfs)(path := None)\<rparr> in
      if sint handleId < int (length (handles wfs))
      then (if sint handleId < 0 then Inl IndexOutOfRange
            else Inr (wfs\<lparr>handles := (handles wfs)[nat (sint handleId) := None]\<rparr>))
      else Inr wfs)"

text \<open>
  The invariant of the map: every index it holds lies inside the table. It holds on a
  new gateway and both calls keep it, so on the tables a gateway reaches the index
  expressions of \<open>AcquireHandle\<close> do not panic.
\<close>

definition tableOk :: "WFS \<Rightarrow> bool" where
  "tableOk wfs \<longleftrightarrow>
     (\<forall>path index. pathToHandleIndex wfs path = Some index \<longrightarrow>
        0 \<le> index \<and> index < int (length (handles wfs)))"

text \<open>Sequences of calls on one gateway; a panic ends the sequence.\<close>

datatype call = Acquire File "32 word" "32 word" | Release string "64 word"

fun step :: "WFS \<Rightarrow> call \<Rightarrow> go_panic + WFS" where
  "step wfs (Acquire file uid gid) = map_sum id snd (AcquireHandle wfs file uid gid)"
| "step wfs (Release path handleId) = ReleaseHandle wfs path handleId"

fun run :: "WFS \<Rightarrow> call list \<Rightarrow> go_panic + WFS" where
  "run wfs [] = Inr wfs"
| "run wfs (c # cs) = (case step wfs c of Inl p \<Rightarrow> Inl p | Inr wfs' \<Rightarrow> run wfs' cs)"

definition acquireTwice ::
  "WFS \<Rightarrow> File \<Rightarrow> 32 word \<Rightarrow> 32 word \<Rightarrow> File \<Rightarrow> 32 word \<Rightarrow> 32 word \<Rightarrow>
     go_panic + (FileHandle \<times> FileHandle \<times> WFS)" where
  \<comment> \<open>Two calls in a row, the second on the table the first one left: both results and
     the final table.\<close>
  "acquireTwice wfs file uid gid file' uid' gid' =
     (case AcquireHandle wfs file uid gid of
        Inl p \<Rightarrow> Inl p
      | Inr (h1, wfs1) \<Rightarrow>
          (case AcquireHandle wfs1 file' uid' gid' of
             Inl p \<Rightarrow> Inl p
           | Inr (h2, wfs2) \<Rightarrow> Inr (h1, h2, wfs2)))"

section \<open>The read responder of the filer (weed/server, the read handlers)\<close>

subsection \<open>Data\<close>

text \<open>
  Byte strings and texts are \<open>string\<close>. A URL is kept in parsed form: \<open>Location\<close> is
  everything before the query (scheme, host and path of a volume server URL),
  \<open>Path\<close> the path that \<open>r.URL.Path\<close> reads, and \<open>RawQuery\<close> the ordered key-value pairs
  that \<open>url.ParseQuery\<close> reads from the raw query and \<open>url.Values.Encode\<close> writes to it.
  Parsing, escaping and printing of URLs belong to the standard library.
\<close>

record URL =
  Location :: string
  Path :: string
  RawQuery :: "(string \<times> string) list"

type_synonym Values = "(string \<times> string list) list"
type_synonym Header = "(string \<times> string list) list"

record Request =
  Method :: string
  URL :: URL
  Proto :: string
  ProtoMajor :: int
  ProtoMinor :: int
  Header :: Header
  Body :: string
  Host :: string
  ContentLength :: int

text \<open>
  The answer of a volume server. \<open>RespBody\<close> is what reading \<open>resp.Body\<close> to its end
  gives: the bytes, or the read error.
\<close>

record Response =
  StatusCode :: int
  RespHeader :: Header
  RespBody :: "string + string"

text \<open>
  \<open>filer_pb.FileChunk\<close>, \<open>filer2.Attr\<close> and \<open>filer2.Entry\<close> are declared outside the given
  sources; the records hold what the handlers read. \<open>FileId\<close> is the result of
  \<open>GetFileIdString()\<close>, \<open>CipherKey = None\<close> the nil key, \<open>IsDirectory\<close> and \<open>Name\<close> the
  results of the methods of these names.
\<close>

record FileChunk =
  FileId :: string
  Size :: "64 word"
  CipherKey :: "string option"

record Attr =
  Mtime :: nat
  Mime :: string

record Entry =
  Name :: string
  IsDirectory :: bool
  Attr :: Attr
  Chunks :: "FileChunk list"

record httpRange =
  start :: int
  length_r :: int

datatype find_error = ErrNotFound | FindFailed string

record FilerOption =
  RedirectOnRead :: bool
  DisableDirListing :: bool

text \<open>
  The filer server: its options, the metadata lookup \<open>fs.filer.FindEntry\<close> and the
  location lookup \<open>fs.filer.MasterClient.LookupFileId\<close>.
\<close>

record FilerServer =
  option :: FilerOption
  FindEntry :: "string \<Rightarrow> find_error + Entry"
  LookupFileId :: "string \<Rightarrow> string + URL"

text \<open>
  Functions of other packages and of files outside the given sources, taken as
  parameters: \<open>util.Do\<close>, \<open>util.Decrypt\<close>, \<open>parseRange\<close>, \<open>filer2.ETag\<close>,
  \<open>filer2.StreamContent\<close> (its error, if any), \<open>path.Ext\<close>, \<open>mime.TypeByExtension\<close>,
  \<open>Time.Format(http.TimeFormat)\<close>, \<open>httpRange.contentRange\<close>, \<open>rangesMIMESize\<close> and the
  boundary a new multipart writer chooses.
\<close>

record Externals =
  Do :: "Request \<Rightarrow> string + Response"
  Decrypt :: "string \<Rightarrow> string option \<Rightarrow> string + string"
  parseRange :: "string \<Rightarrow> int \<Rightarrow> string + httpRange list"
  ETag :: "FileChunk list \<Rightarrow> string"
  StreamContent :: "FileChunk list \<Rightarrow> int \<Rightarrow> int \<Rightarrow> string option"
  Ext :: "string \<Rightarrow> string"
  TypeByExtension :: "string \<Rightarrow> string"
  TimeFormat :: "nat \<Rightarrow> string"
  contentRange :: "httpRange \<Rightarrow> int \<Rightarrow> string"
  rangesMIMESize :: "httpRange list \<Rightarrow> string \<Rightarrow> int \<Rightarrow> int"
  Boundary :: string

text \<open>
  What a handler does, in order: its calls on the \<open>http.ResponseWriter\<close> and on the
  collaborators. Logging and the request counters are left out.
\<close>

datatype effect =
    WriteHeader int                     \<comment> \<open>\<open>w.WriteHeader(code)\<close>\<close>
  | HeaderSet string string             \<comment> \<open>\<open>w.Header().Set(key, value)\<close>\<close>
  | HeaderAssign string "string list"   \<comment> \<open>\<open>w.Header()[key] = values\<close>\<close>
  | SetEtag string                      \<comment> \<open>\<open>setEtag(w, etag)\<close>\<close>
  | ListDirectory                       \<comment> \<open>\<open>fs.listDirectoryHandler(w, r)\<close>\<close>
  | Redirect URL int                    \<comment> \<open>\<open>http.Redirect(w, r, url, code)\<close>\<close>
  | CallDo Request                      \<comment> \<open>\<open>util.Do(request)\<close>\<close>
  | JsonError int string                \<comment> \<open>\<open>writeJsonError(w, r, code, err)\<close>\<close>
  | CopyBody "string + string"          \<comment> \<open>\<open>io.Copy(w, resp.Body)\<close>\<close>
  | Write string                        \<comment> \<open>\<open>w.Write(data)\<close>\<close>
  | DiscardBody                         \<comment> \<open>deferred: the rest of \<open>resp.Body\<close> is read and the body closed\<close>
  | HttpError string int                \<comment> \<open>\<open>http.Error(w, message, code)\<close>\<close>
  | WriteContent int int                \<comment> \<open>\<open>fs.writeContent(w, entry, offset, size)\<close>\<close>
  | CreatePart httpRange string int     \<comment> \<open>\<open>mw.CreatePart(ra.mimeHeader(mimeType, totalSize))\<close>\<close>
  | PartContent int int                 \<comment> \<open>\<open>fs.writeContent(part, entry, ra.start, int(ra.length))\<close>\<close>
  | CloseMultipart                      \<comment> \<open>\<open>mw.Close()\<close>, \<open>pw.Close()\<close>\<close>
  | Panic go_panic

definition StatusNoContent :: int where "StatusNoContent = 204"
definition StatusPartialContent :: int where "StatusPartialContent = 206"
definition StatusFound :: int where "StatusFound = 302"
definition StatusNotFound :: int where "StatusNotFound = 404"
definition StatusMethodNotAllowed :: int where "StatusMethodNotAllowed = 405"
definition StatusRequestedRangeNotSatisfiable :: int where
  "StatusRequestedRangeNotSatisfiable = 416"
definition StatusInternalServerError :: int where "StatusInternalServerError = 500"

subsection \<open>Library functions the handlers use\<close>

definition HasSuffix :: "string \<Rightarrow> string \<Rightarrow> bool" where
  \<comment> \<open>\<open>strings.HasSuffix\<close>: \<open>len(s) >= len(suffix) && s[len(s)-len(suffix):] == suffix\<close>\<close>
  "HasSuffix s suffix =
     (length suffix \<le> length s \<and> drop (length s - length suffix) s = suffix)"

fun digits :: "nat \<Rightarrow> string" where
  "digits n =
     (if n < 10 then [''0123456789'' ! n]
      else digits (n div 10) @ [''0123456789'' ! (n mod 10)])"

declare digits.simps [simp del]

definition FormatInt :: "int \<Rightarrow> string" where
  \<comment> \<open>\<open>strconv.FormatInt(i, 10)\<close>, and \<open>fmt.Sprintf("%d", i)\<close>\<close>
  "FormatInt i = (if i < 0 then CHR ''-'' # digits (nat (- i)) else digits (nat i))"

definition Header_Get :: "Header \<Rightarrow> string \<Rightarrow> string" where
  \<comment> \<open>\<open>http.Header.Get\<close> on a canonical key: the first value of the key, or the empty
     string\<close>
  "Header_Get h key = (case map_of h key of Some (v # vs) \<Rightarrow> v | _ \<Rightarrow> [])"

fun Values_Add :: "Values \<Rightarrow> string \<Rightarrow> string \<Rightarrow> Values" where
  \<comment> \<open>\<open>url.Values.Add\<close>: \<open>v[key] = append(v[key], value)\<close>\<close>
  "Values_Add [] key value = [(key, [value])]"
| "Values_Add ((k, vs) # m) key value =
     (if k = key then (k, vs @ [value]) # m else (k, vs) # Values_Add m key value)"

definition Query :: "URL \<Rightarrow> Values" where
  \<comment> \<open>\<open>u.Query()\<close>: the pairs of the raw query, added in their order\<close>
  "Query u = fold (\<lambda>(key, value) m. Values_Add m key value) (RawQuery u) []"

definition Encode :: "Values \<Rightarrow> (string \<times> string) list" where
  \<comment> \<open>\<open>url.Values.Encode\<close>: the keys in sorted order, each with its values in their order\<close>
  "Encode v = concat (map (\<lambda>(key, vs). map (Pair key) vs) (sort_key fst v))"

text \<open>
  Reading a query: the values a key has in a list of pairs, in their order, and the
  values \<open>url.Values\<close> holds for a key.
\<close>

definition valuesOf :: "string \<Rightarrow> (string \<times> string) list \<Rightarrow> string list" where
  "valuesOf key pairs = map snd (filter (\<lambda>p. fst p = key) pairs)"

definition Values_Get :: "Values \<Rightarrow> string \<Rightarrow> string list" where
  \<comment> \<open>\<open>v[key]\<close>\<close>
  "Values_Get m key = (case map_of m key of Some vs \<Rightarrow> vs | None \<Rightarrow> [])"

subsection \<open>Functions of the repository that are outside the given sources\<close>

text \<open>
  Modelled from the spec: \<open>filer2.TotalSize\<close>, which is outside the given sources, is the
  sum of each chunk's size, 0 for an empty chunk list. The result is a \<open>uint64\<close>.
\<close>

definition TotalSize :: "FileChunk list \<Rightarrow> 64 word" where
  "TotalSize chunks = sum_list (map Size chunks)"

text \<open>
  Modelled from the spec: \<open>sumRangesSize\<close>, which is outside the given sources, is the
  sum of all range lengths.
\<close>

definition sumRangesSize :: "httpRange list \<Rightarrow> int" where
  "sumRangesSize ranges = sum_list (map length_r ranges)"

subsection \<open>The handlers\<close>

definition writeContent :: "Externals \<Rightarrow> Entry \<Rightarrow> int \<Rightarrow> int \<Rightarrow> string option" where
  \<comment> \<open>\<open>fs.writeContent\<close>: the error of \<open>filer2.StreamContent\<close>, if any\<close>
  "writeContent ext entry offset n = StreamContent ext (Chunks entry) offset n"

definition writeEncryptedChunk :: "Externals \<Rightarrow> Response \<Rightarrow> Entry \<Rightarrow> effect list" where
  "writeEncryptedChunk ext resp entry =
     (case Chunks entry of
        [] \<Rightarrow> [Panic IndexOutOfRange]
      | chunk # rest \<Rightarrow>
          (case RespBody resp of
             Inl err \<Rightarrow> [WriteHeader StatusNotFound]
           | Inr encryptedData \<Rightarrow>
               (case Decrypt ext encryptedData (CipherKey chunk) of
                  Inl err \<Rightarrow> [WriteHeader StatusNotFound]
                | Inr decryptedData \<Rightarrow>
                    [HeaderSet ''Content-Length'' (FormatInt (uint (Size chunk))),
                     WriteHeader (StatusCode resp),
                     Write decryptedData])))"

definition mergeQuery :: "URL \<Rightarrow> URL \<Rightarrow> URL" where
  \<comment> \<open>Lines 106 to 113: every value of the request's query is added to the query of
     the resolved URL, which is then encoded. Go ranges over the request's keys in no
     fixed order; \<open>Encode\<close> sorts the keys, so the order does not show.\<close>
  "mergeQuery u ru =
     (let q = Query u;
          q = fold (\<lambda>(key, values) q. fold (\<lambda>value q. Values_Add q key value) values q)
                (Query ru) q
      in u\<lparr>RawQuery := Encode q\<rparr>)"

definition proxyRequest :: "Request \<Rightarrow> URL \<Rightarrow> Request" where
  \<comment> \<open>Lines 106 to 124: the request sent to the volume server\<close>
  "proxyRequest r urlString =
     \<lparr>Method = Method r, URL = mergeQuery urlString (URL r), Proto = Proto r,
      ProtoMajor = ProtoMajor r, ProtoMinor = ProtoMinor r, Header = Header r,
      Body = Body r, Host = Host r, ContentLength = ContentLength r\<rparr>"

definition copyHeader :: "Response \<Rightarrow> Entry \<Rightarrow> effect list" where
  \<comment> \<open>Lines 136 to 141\<close>
  "copyHeader resp entry =
     map (\<lambda>(k, v). HeaderAssign k v) (RespHeader resp) @
     (if Mime (Attr entry) \<noteq> [] then [HeaderSet ''Content-Type'' (Mime (Attr entry))] else [])"

definition handleSingleChunk ::
  "Externals \<Rightarrow> FilerServer \<Rightarrow> Request \<Rightarrow> Entry \<Rightarrow> effect list" where
  \<comment> \<open>The location lookup gives the URL in parsed form, so \<open>url.Parse\<close> does not show.\<close>
  "handleSingleChunk ext fs r entry =
     (case Chunks entry of
        [] \<Rightarrow> [Panic IndexOutOfRange]
      | chunk # rest \<Rightarrow>
          (case LookupFileId fs (FileId chunk) of
             Inl err \<Rightarrow> [WriteHeader StatusNotFound]
           | Inr urlString \<Rightarrow>
               if RedirectOnRead (option fs) \<and> CipherKey chunk = None
               then [Redirect urlString StatusFound]
               else
                 (let request = proxyRequest r urlString in
                  CallDo request #
                  (case Do ext request of
                     Inl do_err \<Rightarrow> [JsonError StatusInternalServerError do_err]
                   | Inr resp \<Rightarrow>
                       copyHeader resp entry @
                       (if CipherKey chunk = None
                        then [WriteHeader (StatusCode resp), CopyBody (RespBody resp)]
                        else writeEncryptedChunk ext resp entry) @
                       [DiscardBody]))))"

fun sendParts :: "Externals \<Rightarrow> Entry \<Rightarrow> string \<Rightarrow> int \<Rightarrow> httpRange list \<Rightarrow> effect list" where
  \<comment> \<open>Lines 250 to 272, the producer and \<open>io.CopyN\<close> put in sequence: the parts are
     written in order; an error of a part closes the pipe with it, \<open>io.CopyN\<close> fails and
     the handler calls \<open>http.Error\<close>. The byte count of \<open>io.CopyN\<close> and a failing write
     of a part header into the pipe are not modelled.\<close>
  "sendParts ext entry mimeType totalSize [] = [CloseMultipart]"
| "sendParts ext entry mimeType totalSize (ra # ranges) =
     CreatePart ra mimeType totalSize # PartContent (start ra) (length_r ra) #
     (case writeContent ext entry (start ra) (length_r ra) of
        Some e \<Rightarrow> [HttpError ''Internal Error'' StatusInternalServerError]
      | None \<Rightarrow> sendParts ext entry mimeType totalSize ranges)"

definition handleMultipleChunks ::
  "Externals \<Rightarrow> Header \<Rightarrow> Request \<Rightarrow> Entry \<Rightarrow> effect list" where
  \<comment> \<open>\<open>w\<close> is the header map of the response writer as the handler receives it; the
     handler reads \<open>Content-Encoding\<close> from it, a key it does not set itself.\<close>
  "handleMultipleChunks ext w r entry =
     (let mimeType = Mime (Attr entry);
          mimeType =
            (if mimeType = []
             then (let e = Ext ext (Name entry) in
                   if e \<noteq> [] then TypeByExtension ext e else mimeType)
             else mimeType);
          totalSize = sint (TotalSize (Chunks entry));
          rangeReq = Header_Get (Header r) ''Range''
      in
      (if mimeType \<noteq> [] then [HeaderSet ''Content-Type'' mimeType] else []) @
      [SetEtag (ETag ext (Chunks entry))] @
      (if rangeReq = [] then
         [HeaderSet ''Content-Length'' (FormatInt totalSize), WriteContent 0 totalSize] @
         (case writeContent ext entry 0 totalSize of
            Some err \<Rightarrow> [HttpError err StatusInternalServerError]
          | None \<Rightarrow> [])
       else
         (case parseRange ext rangeReq totalSize of
            Inl err \<Rightarrow> [HttpError err StatusRequestedRangeNotSatisfiable]
          | Inr ranges \<Rightarrow>
              if sumRangesSize ranges > totalSize then []
              else if length ranges = 0 then []
              else if length ranges = 1 then
                (let ra = hd ranges in
                 [HeaderSet ''Content-Length'' (FormatInt (length_r ra)),
                  HeaderSet ''Content-Range'' (contentRange ext ra totalSize),
                  WriteHeader StatusPartialContent,
                  WriteContent (start ra) (length_r ra)] @
                 (case writeContent ext entry (start ra) (length_r ra) of
                    Some err \<Rightarrow> [HttpError err StatusInternalServerError]
                  | None \<Rightarrow> []))
              else
                (case find (\<lambda>ra. start ra > totalSize) ranges of
                   Some ra \<Rightarrow> [HttpError ''Out of Range'' StatusRequestedRangeNotSatisfiable]
                 | None \<Rightarrow>
                     (let sendSize = rangesMIMESize ext ranges mimeType totalSize in
                      [HeaderSet ''Content-Type''
                         (''multipart/byteranges; boundary='' @ Boundary ext)] @
                      (if Header_Get w ''Content-Encoding'' = []
                       then [HeaderSet ''Content-Length'' (FormatInt sendSize)] else []) @
                      [WriteHeader StatusPartialContent] @
                      sendParts ext entry mimeType totalSize ranges)))))"

definition lookupPath :: "Request \<Rightarrow> string" where
  \<comment> \<open>Lines 24 to 28: the path that is looked up, a trailing slash removed\<close>
  "lookupPath r =
     (let path = Path (URL r);
          isForDirectory = HasSuffix path ''/''
      in if isForDirectory \<and> length path > 1 then take (length path - 1) path else path)"

definition GetOrHeadHandler ::
  "Externals \<Rightarrow> FilerServer \<Rightarrow> Header \<Rightarrow> Request \<Rightarrow> bool \<Rightarrow> effect list" where
  "GetOrHeadHandler ext fs w r isGetMethod =
     (let path = lookupPath r;
          isForDirectory = HasSuffix (Path (URL r)) ''/''
      in
      case FindEntry fs path of
        Inl err \<Rightarrow>
          if path = ''/'' then [ListDirectory]
          else if err = ErrNotFound then [WriteHeader StatusNotFound]
          else [WriteHeader StatusInternalServerError]
      | Inr entry \<Rightarrow>
          if IsDirectory entry then
            (if DisableDirListing (option fs) then [WriteHeader StatusMethodNotAllowed]
             else [ListDirectory])
          else if isForDirectory then [WriteHeader StatusNotFound]
          else if length (Chunks entry) = 0 then [WriteHeader StatusNoContent]
          else
            HeaderSet ''Accept-Ranges'' ''bytes'' #
            (if Method r = ''HEAD'' then
               [HeaderSet ''Content-Length'' (FormatInt (sint (TotalSize (Chunks entry)))),
                HeaderSet ''Last-Modified'' (TimeFormat ext (Mtime (Attr entry)))] @
               (if Mime (Attr entry) \<noteq> []
                then [HeaderSet ''Content-Type'' (Mime (Attr entry))] else []) @
               [SetEtag (ETag ext (Chunks entry))]
             else if length (Chunks entry) = 1 then handleSingleChunk ext fs r entry
             else handleMultipleChunks ext w r entry))"

text \<open>What the client is told: the status codes a handler writes, and its calls of \<open>util.Do\<close>.\<close>

fun statusOf :: "effect \<Rightarrow> int option" where
  "statusOf (WriteHeader code) = Some code"
| "statusOf (Redirect u code) = Some code"
| "statusOf (JsonError code err) = Some code"
| "statusOf (HttpError msg code) = Some code"
| "statusOf e = None"

definition statusCodes :: "effect list \<Rightarrow> int list" where
  "statusCodes t = List.map_filter statusOf t"

fun fetchOf :: "effect \<Rightarrow> Request option" where
  "fetchOf (CallDo request) = Some request"
| "fetchOf e = None"

definition fetches :: "effect list \<Rightarrow> Request list" where
  "fetches t = List.map_filter fetchOf t"

section \<open>Concrete handle tables\<close>

definition fileA :: File where "fileA = \<lparr>fullpath = ''/a''\<rparr>"
definition fileB :: File where "fileB = \<lparr>fullpath = ''/b''\<rparr>"
definition fileC :: File where "fileC = \<lparr>fullpath = ''/c''\<rparr>"

definition handleA :: FileHandle where
  "handleA = \<lparr>fh_f = fileA, Uid = 1000, Gid = 1000, handle = 0\<rparr>"

definition handleB :: FileHandle where
  "handleB = \<lparr>fh_f = fileB, Uid = 1000, Gid = 1000, handle = 1\<rparr>"

definition wfs_one :: WFS where
  \<comment> \<open>The table after \<open>/a\<close> was opened on a new gateway.\<close>
  "wfs_one = \<lparr>handles = [Some handleA], pathToHandleIndex = [''/a'' \<mapsto> 0]\<rparr>"

definition wfs_two :: WFS where
  \<comment> \<open>The table after \<open>/a\<close> and \<open>/b\<close> were opened.\<close>
  "wfs_two = \<lparr>handles = [Some handleA, Some handleB],
              pathToHandleIndex = [''/a'' \<mapsto> 0, ''/b'' \<mapsto> 1]\<rparr>"

definition wfs_released :: WFS where
  \<comment> \<open>\<open>wfs_one\<close> after \<open>/a\<close> was released with its own identifier.\<close>
  "wfs_released = \<lparr>handles = [None], pathToHandleIndex = Map.empty\<rparr>"

definition churn :: "call list" where
  \<comment> \<open>Three files are opened; \<open>/a\<close> is released; the handle of \<open>/c\<close> is released under
     another path than the one it was acquired for.\<close>
  "churn = [Acquire fileA 1000 1000, Acquire fileB 1000 1000, Acquire fileC 1000 1000,
            Release ''/a'' 0, Release ''/c.moved'' 2]"

definition wfs_stale :: WFS where
  \<comment> \<open>The table \<open>churn\<close> leaves: \<open>/c\<close> is still mapped to slot 2, which is nil, and so
     is slot 0.\<close>
  "wfs_stale = \<lparr>handles = [None, Some handleB, None],
                pathToHandleIndex = [''/b'' \<mapsto> 1, ''/c'' \<mapsto> 2]\<rparr>"

section \<open>Concrete requests and entries\<close>

definition mkRequest :: "string \<Rightarrow> string \<Rightarrow> (string \<times> string) list \<Rightarrow> Header \<Rightarrow> Request" where
  "mkRequest m p q h =
     \<lparr>Method = m, URL = \<lparr>Location = [], Path = p, RawQuery = q\<rparr>, Proto = ''HTTP/1.1'',
      ProtoMajor = 1, ProtoMinor = 1, Header = h, Body = [], Host = ''filer:8888'',
      ContentLength = 0\<rparr>"

definition volumeUrl :: URL where
  "volumeUrl = \<lparr>Location = ''http://127.0.0.1:8080/3,01637037d6'', Path = ''/3,01637037d6'',
                RawQuery = []\<rparr>"

definition chunkPlain :: FileChunk where
  "chunkPlain = \<lparr>FileId = ''3,01637037d6'', Size = 6, CipherKey = None\<rparr>"

definition chunkEnc :: FileChunk where
  "chunkEnc = \<lparr>FileId = ''3,01637037d6'', Size = 5, CipherKey = Some ''key''\<rparr>"

definition fileAttr :: Attr where
  "fileAttr = \<lparr>Mtime = 0, Mime = []\<rparr>"

definition entryPlain :: Entry where
  "entryPlain = \<lparr>Name = ''one'', IsDirectory = False, Attr = fileAttr, Chunks = [chunkPlain]\<rparr>"

definition entryEnc :: Entry where
  "entryEnc = \<lparr>Name = ''enc'', IsDirectory = False, Attr = fileAttr, Chunks = [chunkEnc]\<rparr>"

definition entryEmpty :: Entry where
  "entryEmpty = \<lparr>Name = ''empty'', IsDirectory = False, Attr = fileAttr, Chunks = []\<rparr>"

definition entryDir :: Entry where
  "entryDir = \<lparr>Name = ''dir'', IsDirectory = True, Attr = fileAttr, Chunks = []\<rparr>"

definition entryFive :: Entry where
  \<comment> \<open>a file of two chunks and five bytes\<close>
  "entryFive = \<lparr>Name = ''five'', IsDirectory = False, Attr = fileAttr,
                Chunks = [\<lparr>FileId = ''3,01'', Size = 2, CipherKey = None\<rparr>,
                          \<lparr>FileId = ''4,02'', Size = 3, CipherKey = None\<rparr>]\<rparr>"

definition threeRanges :: "httpRange list" where
  \<comment> \<open>the ranges of \<open>bytes=0-4,0-4,0-4\<close> on five bytes\<close>
  "threeRanges = [\<lparr>start = 0, length_r = 5\<rparr>, \<lparr>start = 0, length_r = 5\<rparr>,
                  \<lparr>start = 0, length_r = 5\<rparr>]"

definition volumeAnswer :: Response where
  "volumeAnswer = \<lparr>StatusCode = 200, RespHeader = [(''Server'', [''volume''])],
                   RespBody = Inr ''sealed''\<rparr>"

definition ext_ex :: Externals where
  "ext_ex =
     \<lparr>Do = (\<lambda>request. Inr volumeAnswer),
      Decrypt = (\<lambda>data key. if data = ''sealed'' \<and> key = Some ''key'' then Inr ''plain''
                 else Inl ''cipher: message authentication failed''),
      parseRange = (\<lambda>s n. if s = ''bytes=0-4,0-4,0-4'' \<and> n = 5 then Inr threeRanges
                    else Inl ''invalid range''),
      ETag = (\<lambda>chunks. ''etag''),
      StreamContent = (\<lambda>chunks offset n. None),
      Ext = (\<lambda>name. []),
      TypeByExtension = (\<lambda>e. []),
      TimeFormat = (\<lambda>t. ''Thu, 01 Jan 1970 00:00:00 GMT''),
      contentRange = (\<lambda>ra n. ''bytes''),
      rangesMIMESize = (\<lambda>ranges mimeType n. 0),
      Boundary = ''boundary''\<rparr>"

definition ext_tampered :: Externals where
  \<comment> \<open>as \<open>ext_ex\<close>, but the volume server's bytes do not decrypt\<close>
  "ext_tampered = ext_ex\<lparr>Do := (\<lambda>request. Inr (volumeAnswer\<lparr>RespBody := Inr ''broken''\<rparr>))\<rparr>"

definition fs_ex :: FilerServer where
  "fs_ex =
     \<lparr>option = \<lparr>RedirectOnRead = True, DisableDirListing = False\<rparr>,
      FindEntry = (\<lambda>path.
        if path = ''/one'' then Inr entryPlain
        else if path = ''/enc'' then Inr entryEnc
        else if path = ''/empty'' then Inr entryEmpty
        else if path = ''/dir'' then Inr entryDir
        else if path = ''/five'' then Inr entryFive
        else Inl ErrNotFound),
      LookupFileId = (\<lambda>fileId. if fileId = ''3,01637037d6'' then Inr volumeUrl
                      else Inl ''volume not found'')\<rparr>"

definition fs_proxy :: FilerServer where
  \<comment> \<open>as \<open>fs_ex\<close>, with redirect-on-read switched off\<close>
  "fs_proxy = fs_ex\<lparr>option := \<lparr>RedirectOnRead = False, DisableDirListing = False\<rparr>\<rparr>"

definition fs_down :: FilerServer where
  \<comment> \<open>a filer whose metadata store cannot be reached\<close>
  "fs_down = fs_ex\<lparr>FindEntry := (\<lambda>path. Inl (FindFailed ''connection refused''))\<rparr>"

section \<open>Properties of the handle table\<close>

lemma foundLive_live:
  assumes "pathToHandleIndex wfs path = Some index"
    and "0 \<le> index" and "index < int (length (handles wfs))"
    and "handles wfs ! nat index = Some h"
  shows "foundLive wfs path = Inr (Some h)"
  using assms by (simp add: foundLive_def)

lemma firstNil_None: "firstNil hs = None \<longleftrightarrow> None \<notin> set hs"
  by (induction hs rule: firstNil.induct) auto

lemma firstNil_Some: "firstNil hs = Some i \<Longrightarrow> i < length hs \<and> hs ! i = None"
  by (induction hs arbitrary: i rule: firstNil.induct) auto

lemma length_placeHandle:
  "length (handles (snd (placeHandle wfs file uid gid))) =
     (if None \<in> set (handles wfs) then length (handles wfs) else length (handles wfs) + 1)"
  using firstNil_None [of "handles wfs"]
  by (auto simp: placeHandle_def Let_def split: option.splits)

lemma AcquireHandle_cases:
  assumes "AcquireHandle wfs file uid gid = Inr (h, wfs')"
  shows "(foundLive wfs (fullpath file) = Inr (Some h) \<and> wfs' = wfs) \<or>
         (foundLive wfs (fullpath file) = Inr None \<and> (h, wfs') = placeHandle wfs file uid gid)"
  using assms by (auto simp: AcquireHandle_def split: sum.splits option.splits)

lemma handles_ReleaseHandle:
  assumes "ReleaseHandle wfs path handleId = Inr wfs'"
  shows "handles wfs' = (handles wfs)[nat (sint handleId) := None]"
proof (cases "sint handleId < int (length (handles wfs))")
  case True
  with assms show ?thesis
    by (auto simp: ReleaseHandle_def Let_def split: if_splits)
next
  case False
  then have "length (handles wfs) \<le> nat (sint handleId)"
    by simp
  then have "(handles wfs)[nat (sint handleId) := None] = handles wfs"
    by (rule list_update_beyond)
  with assms False show ?thesis
    by (auto simp: ReleaseHandle_def Let_def)
qed

lemma length_AcquireHandle:
  assumes "AcquireHandle wfs file uid gid = Inr (h, wfs')"
  shows "length (handles wfs') =
     (if foundLive wfs (fullpath file) = Inr None \<and> None \<notin> set (handles wfs)
      then length (handles wfs) + 1 else length (handles wfs))"
proof -
  from AcquireHandle_cases [OF assms] show ?thesis
  proof
    assume "foundLive wfs (fullpath file) = Inr (Some h) \<and> wfs' = wfs"
    then show ?thesis by simp
  next
    assume a: "foundLive wfs (fullpath file) = Inr None \<and>
      (h, wfs') = placeHandle wfs file uid gid"
    then have "wfs' = snd (placeHandle wfs file uid gid)"
      by (metis snd_conv)
    with a show ?thesis by (simp add: length_placeHandle)
  qed
qed

lemma step_length:
  assumes "step wfs c = Inr wfs'"
  shows "length (handles wfs) \<le> length (handles wfs')"
proof (cases c)
  case (Acquire fl uid gid)
  with assms obtain h where "AcquireHandle wfs fl uid gid = Inr (h, wfs')"
    by (cases "AcquireHandle wfs fl uid gid") auto
  then show ?thesis by (simp add: length_AcquireHandle)
next
  case (Release path handleId)
  with assms show ?thesis by (simp add: handles_ReleaseHandle)
qed

lemma run_length:
  "run wfs cs = Inr wfs' \<Longrightarrow> length (handles wfs) \<le> length (handles wfs')"
proof (induction cs arbitrary: wfs)
  case Nil
  then show ?case by simp
next
  case (Cons c cs)
  then obtain wfs1 where s: "step wfs c = Inr wfs1" and r: "run wfs1 cs = Inr wfs'"
    by (auto split: sum.splits)
  from step_length [OF s] Cons.IH [OF r] show ?case by simp
qed

lemma uint_below: "uint w < 2 ^ 63" if "unat w < 2 ^ 63" for w :: "64 word"
proof -
  from that have "int (unat w) < int (2 ^ 63)"
    by (rule iffD2 [OF of_nat_less_iff])
  then show ?thesis by simp
qed

lemma uint_above: "- (2 ^ 63) \<le> uint w" for w :: "64 word"
proof -
  have "(0::int) \<le> uint w" by simp
  moreover have "- (2 ^ 63) \<le> (0::int)" by simp
  ultimately show ?thesis by (rule order_trans [rotated])
qed

lemma sint_small: "sint w = int (unat w)" if "unat w < 2 ^ 63" for w :: "64 word"
proof -
  have "signed_take_bit 63 (uint w) = uint w"
    using uint_above [of w] uint_below [OF that] by (rule signed_take_bit_int_eq_self)
  moreover have "sint w = signed_take_bit 63 (uint w)"
    using sint_uint [of w] by simp
  ultimately show ?thesis
    by simp
qed

text \<open>
  The calls return: \<open>AcquireHandle\<close> on every table that satisfies the invariant,
  \<open>ReleaseHandle\<close> for every identifier below \<open>2 ^ 63\<close>; and they keep the invariant (for
  \<open>AcquireHandle\<close>, while the table is shorter than \<open>2 ^ 63\<close> slots, the range of Go's
  \<open>int\<close>).
\<close>

lemma tableOk_new: "tableOk NewSeaweedFileSystem"
  by (simp add: tableOk_def NewSeaweedFileSystem_def)

lemma foundLive_ok: "tableOk wfs \<Longrightarrow> \<exists>slot. foundLive wfs path = Inr slot"
  by (auto simp: tableOk_def foundLive_def split: option.splits)

lemma AcquireHandle_returns:
  assumes "tableOk wfs"
  shows "\<exists>h wfs'. AcquireHandle wfs file uid gid = Inr (h, wfs')"
proof -
  from foundLive_ok [OF assms] obtain slot where "foundLive wfs (fullpath file) = Inr slot"
    by blast
  then show ?thesis
    by (cases slot; cases "placeHandle wfs file uid gid") (simp_all add: AcquireHandle_def)
qed

lemma ReleaseHandle_returns:
  assumes "unat handleId < 2 ^ 63"
  shows "\<exists>wfs'. ReleaseHandle wfs path handleId = Inr wfs'"
proof -
  have "sint handleId = int (unat handleId)"
    using assms by (rule sint_small)
  then have "\<not> sint handleId < 0"
    by linarith
  then show ?thesis
    by (simp add: ReleaseHandle_def Let_def)
qed

lemma tableOk_ReleaseHandle:
  assumes "tableOk wfs" and "ReleaseHandle wfs path handleId = Inr wfs'"
  shows "tableOk wfs'"
proof -
  have l: "length (handles wfs') = length (handles wfs)"
    using handles_ReleaseHandle [OF assms(2)] by simp
  have m: "pathToHandleIndex wfs' = (pathToHandleIndex wfs)(path := None)"
    using assms(2) by (auto simp: ReleaseHandle_def Let_def split: if_splits)
  from assms(1) show ?thesis
    by (auto simp: tableOk_def l m split: if_splits)
qed

lemma sint_length: "sint (word_of_nat n :: 64 word) = int n" if "n < 2 ^ 63"
proof -
  from that have "n < 2 ^ 64"
    by simp
  then have "n mod 2 ^ 64 = n"
    by (rule mod_less)
  then have u: "unat (word_of_nat n :: 64 word) = n"
    by (simp add: unat_of_nat)
  with that have "unat (word_of_nat n :: 64 word) < 2 ^ 63"
    by simp
  then have "sint (word_of_nat n :: 64 word) = int (unat (word_of_nat n :: 64 word))"
    by (rule sint_small)
  with u show ?thesis
    by (simp only:)
qed

lemma tableOkD:
  "tableOk wfs \<Longrightarrow> pathToHandleIndex wfs path = Some index \<Longrightarrow>
     0 \<le> index \<and> index < int (length (handles wfs))"
  by (simp add: tableOk_def)

lemma tableOk_placeHandle:
  assumes "tableOk wfs" and "length (handles wfs) < 2 ^ 63"
  shows "tableOk (snd (placeHandle wfs fl uid gid))"
proof (cases "firstNil (handles wfs)")
  case None
  show ?thesis
    unfolding tableOk_def
  proof (intro allI impI)
    fix path index
    assume "pathToHandleIndex (snd (placeHandle wfs fl uid gid)) path = Some index"
    with None have "(path = fullpath fl \<and> index = int (length (handles wfs))) \<or>
        pathToHandleIndex wfs path = Some index"
      by (auto simp: placeHandle_def Let_def sint_length [OF assms(2)] split: if_splits)
    moreover have "length (handles (snd (placeHandle wfs fl uid gid))) =
        length (handles wfs) + 1"
      using None by (simp add: placeHandle_def Let_def)
    ultimately show "0 \<le> index \<and>
        index < int (length (handles (snd (placeHandle wfs fl uid gid))))"
      using tableOkD [OF assms(1), of path index] by auto
  qed
next
  case (Some i)
  show ?thesis
    unfolding tableOk_def
  proof (intro allI impI)
    fix path index
    assume "pathToHandleIndex (snd (placeHandle wfs fl uid gid)) path = Some index"
    with Some have "(path = fullpath fl \<and> index = int i) \<or>
        pathToHandleIndex wfs path = Some index"
      by (auto simp: placeHandle_def Let_def split: if_splits)
    moreover have "length (handles (snd (placeHandle wfs fl uid gid))) = length (handles wfs)"
      using Some by (simp add: placeHandle_def Let_def)
    ultimately show "0 \<le> index \<and>
        index < int (length (handles (snd (placeHandle wfs fl uid gid))))"
      using tableOkD [OF assms(1), of path index] firstNil_Some [OF Some] by auto
  qed
qed

lemma tableOk_AcquireHandle:
  assumes "tableOk wfs" and "length (handles wfs) < 2 ^ 63"
    and "AcquireHandle wfs fl uid gid = Inr (h, wfs')"
  shows "tableOk wfs'"
  using AcquireHandle_cases [OF assms(3)] tableOk_placeHandle [OF assms(1,2)] assms(1)
  by (metis snd_conv)

lemmas table_defs =
  NewSeaweedFileSystem_def AcquireHandle_def foundLive_def placeHandle_def newFileHandle_def
  ReleaseHandle_def Let_def

lemmas table_examples =
  fileA_def fileB_def fileC_def handleA_def handleB_def wfs_one_def wfs_two_def
  wfs_released_def wfs_stale_def churn_def

lemma run_churn: "run NewSeaweedFileSystem churn = Inr wfs_stale"
  by (simp add: table_defs table_examples)

text \<open>
  C4. The table \<open>wfs_stale\<close> is the one the calls of \<open>churn\<close> leave on a new gateway. The
  map sends \<open>/c\<close> to slot 2 and slot 2 is nil. \<open>AcquireHandle\<close> for \<open>/c\<close> does not put
  the handle into slot 2: the reuse branch of line 98 tests \<open>!= nil\<close> again and is never
  taken, the first-fit scan finds slot 0, the handle gets identifier 0, and slot 2 stays
  nil.
\<close>

theorem AcquireHandle_released_slot_not_reused:
  "run NewSeaweedFileSystem churn = Inr wfs_stale \<and>
   pathToHandleIndex wfs_stale (fullpath fileC) = Some 2 \<and>
   handles wfs_stale ! 2 = None \<and>
   (case AcquireHandle wfs_stale fileC 1000 1000 of
      Inl p \<Rightarrow> False
    | Inr (h, wfs') \<Rightarrow>
        handle h = 0 \<and> handles wfs' ! 0 = Some h \<and> handles wfs' ! 2 = None \<and>
        pathToHandleIndex wfs' (fullpath fileC) = Some 0)"
  by (simp add: run_churn) (simp add: table_defs table_examples)

text \<open>
  C5. When a live handle exists for a path (the map sends the path to an index inside
  the table and that slot is not nil), two calls of \<open>AcquireHandle\<close> in a row for files
  of that path both return the handle stored in the slot, hence the same identifier, and
  leave the table and the map as they were.
\<close>

theorem AcquireHandle_live_twice:
  assumes "pathToHandleIndex wfs (fullpath file) = Some index"
    and "0 \<le> index" and "index < int (length (handles wfs))"
    and "handles wfs ! nat index = Some h"
    and "fullpath file' = fullpath file"
  shows "acquireTwice wfs file uid gid file' uid' gid' = Inr (h, h, wfs)"
proof -
  have live: "foundLive wfs (fullpath file) = Inr (Some h)"
    using assms(1-4) by (rule foundLive_live)
  have first: "AcquireHandle wfs file uid gid = Inr (h, wfs)"
    by (simp add: AcquireHandle_def live)
  have second: "AcquireHandle wfs file' uid' gid' = Inr (h, wfs)"
    by (simp add: AcquireHandle_def assms(5) live)
  show ?thesis
    by (simp add: acquireTwice_def first second)
qed

theorem AcquireHandle_live_twice_witness:
  "pathToHandleIndex wfs_one (fullpath fileA) = Some 0 \<and> (0::int) \<le> 0 \<and>
   0 < int (length (handles wfs_one)) \<and> handles wfs_one ! nat 0 = Some handleA \<and>
   fullpath fileA = fullpath fileA \<and>
   acquireTwice wfs_one fileA 1000 1000 fileA 0 0 = Inr (handleA, handleA, wfs_one)"
  using AcquireHandle_live_twice [of wfs_one fileA 0 handleA fileA 1000 1000 0 0]
  by (simp add: wfs_one_def fileA_def)

text \<open>
  C6, as stated, fails: \<open>ReleaseHandle\<close> deletes the path from the map before it looks at
  the identifier. On \<open>wfs_one\<close>, releasing \<open>/a\<close> with the out-of-bounds identifier 7 leaves
  the table as it was and removes \<open>/a\<close> from the map.
\<close>

theorem ReleaseHandle_out_of_bounds_counterexample:
  "length (handles wfs_one) \<le> unat (7 :: 64 word) \<and>
   pathToHandleIndex wfs_one ''/a'' = Some 0 \<and>
   (case ReleaseHandle wfs_one ''/a'' 7 of
      Inl p \<Rightarrow> False
    | Inr wfs' \<Rightarrow> handles wfs' = handles wfs_one \<and> pathToHandleIndex wfs' ''/a'' = None) \<and>
   ReleaseHandle wfs_one ''/a'' 7 \<noteq> Inr wfs_one"
proof -
  have "ReleaseHandle wfs_one ''/a'' 7 = Inr (wfs_one\<lparr>pathToHandleIndex := Map.empty\<rparr>)"
    by (simp add: ReleaseHandle_def wfs_one_def Let_def)
  moreover have "wfs_one\<lparr>pathToHandleIndex := Map.empty\<rparr> \<noteq> wfs_one"
  proof
    assume "wfs_one\<lparr>pathToHandleIndex := Map.empty\<rparr> = wfs_one"
    then have "pathToHandleIndex (wfs_one\<lparr>pathToHandleIndex := Map.empty\<rparr>) ''/a'' =
        pathToHandleIndex wfs_one ''/a''"
      by simp
    then show False by (simp add: wfs_one_def)
  qed
  ultimately show ?thesis
    by (simp add: wfs_one_def)
qed

text \<open>
  C6, amended. For an identifier at or beyond the length of the table that is
  non-negative as a Go \<open>int\<close> (below \<open>2 ^ 63\<close>), \<open>ReleaseHandle\<close> returns, leaves the handle
  table unchanged, and changes the map only by removing the entry of the released path.
\<close>

theorem ReleaseHandle_out_of_bounds:
  assumes "length (handles wfs) \<le> unat handleId" and "unat handleId < 2 ^ 63"
  shows "ReleaseHandle wfs path handleId =
           Inr (wfs\<lparr>pathToHandleIndex := (pathToHandleIndex wfs)(path := None)\<rparr>)"
proof -
  have "sint handleId = int (unat handleId)"
    using assms(2) by (rule sint_small)
  moreover from assms(1) have "int (length (handles wfs)) \<le> int (unat handleId)"
    by (rule iffD2 [OF of_nat_le_iff])
  ultimately have "\<not> sint handleId < int (length (handles wfs))"
    by linarith
  then show ?thesis
    by (simp add: ReleaseHandle_def Let_def)
qed

theorem ReleaseHandle_out_of_bounds_witness:
  "length (handles wfs_two) \<le> unat (2 :: 64 word) \<and> unat (2 :: 64 word) < 2 ^ 63 \<and>
   ReleaseHandle wfs_two ''/b'' 2 =
     Inr (wfs_two\<lparr>pathToHandleIndex := (pathToHandleIndex wfs_two)(''/b'' := None)\<rparr>)"
  using ReleaseHandle_out_of_bounds [of wfs_two 2 "''/b''"]
  by (simp add: wfs_two_def)

text \<open>
  The identifiers from \<open>2 ^ 63\<close> on are negative as an \<open>int\<close>: they pass the bounds test
  of line 130 and the index expression of line 131 panics.
\<close>

lemma ReleaseHandle_negative_index:
  "ReleaseHandle wfs path (- 1) = Inl IndexOutOfRange"
  by (simp add: ReleaseHandle_def Let_def)

text \<open>
  C10. The handle table never gets shorter. A run of calls that returns ends with a
  table at least as long as the one it started with. \<open>ReleaseHandle\<close> sets one slot to nil
  (no slot when the identifier lies beyond the table) and keeps the length.
  \<open>AcquireHandle\<close> keeps the length when it returns a live handle or finds a nil slot,
  and appends exactly one slot otherwise, that is only when no slot is nil.
\<close>

theorem handle_table_never_shrinks:
  "(run wfs calls = Inr wfs1 \<longrightarrow> length (handles wfs) \<le> length (handles wfs1)) \<and>
   (ReleaseHandle wfs path handleId = Inr wfs2 \<longrightarrow>
      handles wfs2 = (handles wfs)[nat (sint handleId) := None] \<and>
      length (handles wfs2) = length (handles wfs)) \<and>
   (AcquireHandle wfs file uid gid = Inr (h, wfs3) \<longrightarrow>
      length (handles wfs3) =
        (if foundLive wfs (fullpath file) = Inr None \<and> None \<notin> set (handles wfs)
         then length (handles wfs) + 1 else length (handles wfs)))"
proof (intro conjI impI)
  assume "run wfs calls = Inr wfs1"
  then show "length (handles wfs) \<le> length (handles wfs1)"
    by (rule run_length)
next
  assume r: "ReleaseHandle wfs path handleId = Inr wfs2"
  then show "handles wfs2 = (handles wfs)[nat (sint handleId) := None]"
    by (rule handles_ReleaseHandle)
  then show "length (handles wfs2) = length (handles wfs)"
    by simp
next
  assume "AcquireHandle wfs file uid gid = Inr (h, wfs3)"
  then show "length (handles wfs3) =
        (if foundLive wfs (fullpath file) = Inr None \<and> None \<notin> set (handles wfs)
         then length (handles wfs) + 1 else length (handles wfs))"
    by (rule length_AcquireHandle)
qed

theorem handle_table_never_shrinks_witness:
  "run wfs_one [Acquire fileB 1000 1000] = Inr wfs_two \<and>
   length (handles wfs_one) \<le> length (handles wfs_two) \<and>
   ReleaseHandle wfs_one ''/a'' 0 = Inr wfs_released \<and>
   handles wfs_released = (handles wfs_one)[nat (sint (0 :: 64 word)) := None] \<and>
   length (handles wfs_released) = length (handles wfs_one) \<and>
   AcquireHandle wfs_one fileB 1000 1000 = Inr (handleB, wfs_two) \<and>
   length (handles wfs_two) = length (handles wfs_one) + 1"
proof -
  have a: "AcquireHandle wfs_one fileB 1000 1000 = Inr (handleB, wfs_two)"
    by (simp add: table_defs table_examples)
  have r: "ReleaseHandle wfs_one ''/a'' 0 = Inr wfs_released"
    by (simp add: table_defs table_examples)
  have s: "run wfs_one [Acquire fileB 1000 1000] = Inr wfs_two"
    by (simp add: a)
  have l: "foundLive wfs_one (fullpath fileB) = Inr None \<and> None \<notin> set (handles wfs_one)"
    by (simp add: table_defs table_examples)
  from handle_table_never_shrinks
    [of wfs_one "[Acquire fileB 1000 1000]" wfs_two "''/a''" 0 wfs_released fileB 1000 1000
      handleB wfs_two]
    a r s l
  show ?thesis by simp
qed

section \<open>Properties of the read responder\<close>

lemmas responder_defs =
  GetOrHeadHandler_def lookupPath_def HasSuffix_def handleSingleChunk_def
  handleMultipleChunks_def writeEncryptedChunk_def copyHeader_def proxyRequest_def
  mergeQuery_def Query_def Encode_def Header_Get_def writeContent_def TotalSize_def
  sumRangesSize_def FormatInt_def digits.simps Let_def
  StatusNoContent_def StatusPartialContent_def StatusFound_def StatusNotFound_def
  StatusMethodNotAllowed_def StatusRequestedRangeNotSatisfiable_def
  StatusInternalServerError_def

lemmas responder_examples =
  mkRequest_def volumeUrl_def chunkPlain_def chunkEnc_def fileAttr_def entryPlain_def
  entryEnc_def entryEmpty_def entryDir_def entryFive_def threeRanges_def volumeAnswer_def
  ext_ex_def ext_tampered_def fs_ex_def fs_proxy_def fs_down_def

subsection \<open>Status codes and fetches of a trace\<close>

lemma statusCodes_append: "statusCodes (a @ b) = statusCodes a @ statusCodes b"
  by (simp add: statusCodes_def map_filter_def)

lemma fetches_append: "fetches (a @ b) = fetches a @ fetches b"
  by (simp add: fetches_def map_filter_def)

lemma statusCodes_Cons:
  "statusCodes (e # t) =
     (case statusOf e of None \<Rightarrow> statusCodes t | Some c \<Rightarrow> c # statusCodes t)"
  by (simp add: statusCodes_def map_filter_def split: option.splits)

lemma fetches_Cons:
  "fetches (e # t) = (case fetchOf e of None \<Rightarrow> fetches t | Some c \<Rightarrow> c # fetches t)"
  by (simp add: fetches_def map_filter_def split: option.splits)

lemma statusCodes_Nil: "statusCodes [] = []"
  by (simp add: statusCodes_def map_filter_def)

lemma fetches_Nil: "fetches [] = []"
  by (simp add: fetches_def map_filter_def)

lemma statusCodes_HeaderAssign: "statusCodes (map (\<lambda>(k, v). HeaderAssign k v) hs) = []"
  by (induction hs) (auto simp: statusCodes_Cons statusCodes_Nil)

lemma fetches_HeaderAssign: "fetches (map (\<lambda>(k, v). HeaderAssign k v) hs) = []"
  by (induction hs) (auto simp: fetches_Cons fetches_Nil)

lemma statusCodes_copyHeader: "statusCodes (copyHeader resp entry) = []"
  by (simp add: copyHeader_def statusCodes_append statusCodes_HeaderAssign statusCodes_Cons
      statusCodes_Nil)

lemma fetches_copyHeader: "fetches (copyHeader resp entry) = []"
  by (simp add: copyHeader_def fetches_append fetches_HeaderAssign fetches_Cons fetches_Nil)



subsection \<open>The merged query\<close>

lemma keys_Values_Add: "set (map fst (Values_Add m k v)) = insert k (set (map fst m))"
  by (induction m k v rule: Values_Add.induct) auto

lemma distinct_Values_Add:
  "distinct (map fst m) \<Longrightarrow> distinct (map fst (Values_Add m k v))"
proof (induction m k v rule: Values_Add.induct)
  case (1 key v)
  then show ?case by simp
next
  case (2 k vs m key v)
  then show ?case
    using keys_Values_Add [of m key v] by auto
qed

lemma get_Values_Add:
  "Values_Get (Values_Add m k v) k' =
     (if k' = k then Values_Get m k @ [v] else Values_Get m k')"
  by (induction m k v rule: Values_Add.induct) (auto simp: Values_Get_def)

lemma get_fold_pairs:
  "Values_Get (fold (\<lambda>(key, v) m. Values_Add m key v) ps m) k =
     Values_Get m k @ valuesOf k ps"
  by (induction ps arbitrary: m) (auto simp: get_Values_Add valuesOf_def)

lemma distinct_fold_pairs:
  "distinct (map fst m) \<Longrightarrow>
     distinct (map fst (fold (\<lambda>(key, v) m. Values_Add m key v) ps m))"
  by (induction ps arbitrary: m) (auto simp: distinct_Values_Add)

lemma get_fold_values:
  "Values_Get (fold (\<lambda>v q. Values_Add q key v) vs q) k =
     (if k = key then Values_Get q k @ vs else Values_Get q k)"
  by (induction vs arbitrary: q) (auto simp: get_Values_Add)

lemma distinct_fold_values:
  "distinct (map fst q) \<Longrightarrow> distinct (map fst (fold (\<lambda>v q. Values_Add q key v) vs q))"
  by (induction vs arbitrary: q) (auto simp: distinct_Values_Add)

lemma get_absent: "k \<notin> set (map fst m) \<Longrightarrow> Values_Get m k = []"
  by (induction m) (auto simp: Values_Get_def)

lemma get_fold_entries:
  "distinct (map fst rq) \<Longrightarrow>
   Values_Get (fold (\<lambda>(key, vs) q. fold (\<lambda>v q. Values_Add q key v) vs q) rq q) k =
     Values_Get q k @ Values_Get rq k"
proof (induction rq arbitrary: q)
  case Nil
  then show ?case by (simp add: Values_Get_def)
next
  case (Cons e rq)
  obtain key vs where e: "e = (key, vs)" by (cases e)
  from Cons.prems e have d: "distinct (map fst rq)" and n: "key \<notin> set (map fst rq)"
    by auto
  have "Values_Get ((key, vs) # rq) k = (if k = key then vs else Values_Get rq k)"
    by (simp add: Values_Get_def)
  with Cons.IH [OF d] get_absent [OF n] show ?case
    by (simp add: e get_fold_values)
qed

lemma distinct_fold_entries:
  "distinct (map fst q) \<Longrightarrow>
   distinct (map fst (fold (\<lambda>(key, vs) q. fold (\<lambda>v q. Values_Add q key v) vs q) rq q))"
  by (induction rq arbitrary: q) (auto simp: distinct_fold_values)

lemma valuesOf_concat:
  "valuesOf k (concat (map (\<lambda>(key, vs). map (Pair key) vs) xs)) =
     concat (map snd (filter (\<lambda>p. fst p = k) xs))"
  by (induction xs) (auto simp: valuesOf_def filter_empty_conv comp_def)

lemma concat_filter_get:
  "distinct (map fst m) \<Longrightarrow>
     concat (map snd (filter (\<lambda>p. fst p = k) m)) = Values_Get m k"
proof (induction m)
  case Nil
  then show ?case by (simp add: Values_Get_def)
next
  case (Cons e m)
  then have "fst e = k \<Longrightarrow> Values_Get m k = []"
    by (auto intro: get_absent)
  with Cons show ?case
    by (cases e) (auto simp: Values_Get_def)
qed

lemma valuesOf_Encode:
  assumes "distinct (map fst m)"
  shows "valuesOf k (Encode m) = Values_Get m k"
proof -
  have "filter (\<lambda>p. fst p = k) (sort_key fst m) = filter (\<lambda>p. fst p = k) m"
    by (rule sort_key_stable)
  then show ?thesis
    by (simp add: Encode_def valuesOf_concat concat_filter_get [OF assms])
qed

lemma distinct_Query: "distinct (map fst (Query u))"
  by (simp add: Query_def distinct_fold_pairs)

lemma get_Query: "Values_Get (Query u) k = valuesOf k (RawQuery u)"
proof -
  have "Values_Get [] k = []"
    by (simp add: Values_Get_def)
  then show ?thesis
    by (simp add: Query_def get_fold_pairs)
qed

lemma valuesOf_mergeQuery:
  "valuesOf k (RawQuery (mergeQuery u ru)) = valuesOf k (RawQuery u) @ valuesOf k (RawQuery ru)"
  by (simp add: mergeQuery_def Let_def valuesOf_Encode distinct_fold_entries distinct_Query
      get_fold_entries get_Query)

subsection \<open>Range requests\<close>

text \<open>
  Whenever the \<open>Range\<close> header parses to ranges whose lengths sum to more than the
  total size, the handler stops at line 207: it writes no content, sets no
  \<open>Content-Length\<close> and writes no status.
\<close>

lemma oversized_ranges_trace:
  assumes "Header_Get (Header r) ''Range'' \<noteq> []"
    and "parseRange ext (Header_Get (Header r) ''Range'') (sint (TotalSize (Chunks entry))) =
           Inr ranges"
    and "sumRangesSize ranges > sint (TotalSize (Chunks entry))"
  shows "WriteContent offset n \<notin> set (handleMultipleChunks ext w r entry) \<and>
         HeaderSet ''Content-Length'' v \<notin> set (handleMultipleChunks ext w r entry) \<and>
         statusCodes (handleMultipleChunks ext w r entry) = []"
  using assms
  by (auto simp: handleMultipleChunks_def Let_def statusCodes_Cons statusCodes_Nil)

text \<open>
  C1. \<open>entryFive\<close> has two chunks and five bytes. The header \<open>bytes=0-4,0-4,0-4\<close> parses
  to three ranges of five bytes, 15 in sum. \<open>handleMultipleChunks\<close> then returns after the
  ETag: it sets no \<open>Content-Length\<close> and writes no content. The same request without the
  \<open>Range\<close> header gets \<open>Content-Length: 5\<close> and the five bytes of the file.
\<close>

theorem oversized_ranges_serve_no_content:
  "parseRange ext_ex ''bytes=0-4,0-4,0-4'' (sint (TotalSize (Chunks entryFive))) =
     Inr threeRanges \<and>
   sumRangesSize threeRanges = 15 \<and>
   sint (TotalSize (Chunks entryFive)) = 5 \<and>
   handleMultipleChunks ext_ex []
     (mkRequest ''GET'' ''/five'' [] [(''Range'', [''bytes=0-4,0-4,0-4''])]) entryFive =
     [SetEtag ''etag''] \<and>
   handleMultipleChunks ext_ex [] (mkRequest ''GET'' ''/five'' [] []) entryFive =
     [SetEtag ''etag'', HeaderSet ''Content-Length'' ''5'', WriteContent 0 5]"
  by (simp add: responder_defs responder_examples)

subsection \<open>The redirect of a single chunk\<close>

text \<open>
  C2, as stated, fails: the redirect goes to the resolved URL as it is. For the request
  \<open>/one?dl=true\<close> the target is \<open>volumeUrl\<close>, whose query is empty; the merged URL would
  carry \<open>dl=true\<close>.
\<close>

theorem redirect_target_counterexample:
  "Chunks entryPlain = [chunkPlain] \<and> CipherKey chunkPlain = None \<and>
   RedirectOnRead (option fs_ex) \<and>
   handleSingleChunk ext_ex fs_ex (mkRequest ''GET'' ''/one'' [(''dl'', ''true'')] [])
     entryPlain = [Redirect volumeUrl StatusFound] \<and>
   RawQuery volumeUrl = [] \<and>
   RawQuery (mergeQuery volumeUrl (URL (mkRequest ''GET'' ''/one'' [(''dl'', ''true'')] []))) =
     [(''dl'', ''true'')] \<and>
   volumeUrl \<noteq> mergeQuery volumeUrl (URL (mkRequest ''GET'' ''/one'' [(''dl'', ''true'')] []))"
  by (simp add: responder_defs responder_examples)

text \<open>
  C2, amended. For a file of one unencrypted chunk whose location lookup succeeds: with
  redirect-on-read enabled the response is the single 302 redirect to the resolved URL,
  unchanged, so with the resolved URL's own query parameters only. With redirect-on-read
  disabled one request is sent to the volume server, to the resolved location, and its
  query holds for every key the resolved URL's own values first and the values of the
  original request after them.
\<close>

theorem redirect_target_is_resolved_url:
  assumes "Chunks entry = [chunk]" and "CipherKey chunk = None"
    and "LookupFileId fs (FileId chunk) = Inr urlString"
  shows "(RedirectOnRead (option fs) \<longrightarrow>
            handleSingleChunk ext fs r entry = [Redirect urlString StatusFound]) \<and>
         (\<not> RedirectOnRead (option fs) \<longrightarrow>
            fetches (handleSingleChunk ext fs r entry) = [proxyRequest r urlString] \<and>
            Location (URL (proxyRequest r urlString)) = Location urlString \<and>
            valuesOf key (RawQuery (URL (proxyRequest r urlString))) =
              valuesOf key (RawQuery urlString) @ valuesOf key (RawQuery (URL r)))"
proof (intro conjI impI)
  assume "RedirectOnRead (option fs)"
  with assms show "handleSingleChunk ext fs r entry = [Redirect urlString StatusFound]"
    by (simp add: handleSingleChunk_def)
next
  assume "\<not> RedirectOnRead (option fs)"
  with assms show "fetches (handleSingleChunk ext fs r entry) = [proxyRequest r urlString]"
    by (simp add: handleSingleChunk_def Let_def fetches_Cons fetches_append fetches_copyHeader
        fetches_Nil split: sum.splits)
next
  show "Location (URL (proxyRequest r urlString)) = Location urlString"
    by (simp add: proxyRequest_def mergeQuery_def Let_def)
next
  show "valuesOf key (RawQuery (URL (proxyRequest r urlString))) =
      valuesOf key (RawQuery urlString) @ valuesOf key (RawQuery (URL r))"
    by (simp add: proxyRequest_def valuesOf_mergeQuery)
qed

theorem redirect_target_is_resolved_url_witness:
  "Chunks entryPlain = [chunkPlain] \<and> CipherKey chunkPlain = None \<and>
   LookupFileId fs_ex (FileId chunkPlain) = Inr volumeUrl \<and>
   LookupFileId fs_proxy (FileId chunkPlain) = Inr volumeUrl \<and>
   RedirectOnRead (option fs_ex) \<and>
   handleSingleChunk ext_ex fs_ex (mkRequest ''GET'' ''/one'' [(''dl'', ''true'')] [])
     entryPlain = [Redirect volumeUrl StatusFound] \<and>
   \<not> RedirectOnRead (option fs_proxy) \<and>
   fetches (handleSingleChunk ext_ex fs_proxy (mkRequest ''GET'' ''/one'' [(''dl'', ''true'')] [])
     entryPlain) = [proxyRequest (mkRequest ''GET'' ''/one'' [(''dl'', ''true'')] []) volumeUrl] \<and>
   valuesOf ''dl''
     (RawQuery (URL (proxyRequest (mkRequest ''GET'' ''/one'' [(''dl'', ''true'')] []) volumeUrl))) =
     [''true'']"
proof -
  have h: "Chunks entryPlain = [chunkPlain]" "CipherKey chunkPlain = None"
    by (simp_all add: entryPlain_def chunkPlain_def)
  have l: "LookupFileId fs_ex (FileId chunkPlain) = Inr volumeUrl"
    "LookupFileId fs_proxy (FileId chunkPlain) = Inr volumeUrl"
    by (simp_all add: fs_proxy_def fs_ex_def chunkPlain_def)
  have o: "RedirectOnRead (option fs_ex)" "\<not> RedirectOnRead (option fs_proxy)"
    by (simp_all add: fs_proxy_def fs_ex_def)
  have v: "valuesOf ''dl'' (RawQuery volumeUrl) @
      valuesOf ''dl'' (RawQuery (URL (mkRequest ''GET'' ''/one'' [(''dl'', ''true'')] []))) =
      [''true'']"
    by (simp add: valuesOf_def volumeUrl_def mkRequest_def)
  from redirect_target_is_resolved_url [OF h l(1), where ext = ext_ex
      and r = "mkRequest ''GET'' ''/one'' [(''dl'', ''true'')] []" and key = "''dl''"]
    redirect_target_is_resolved_url [OF h l(2), where ext = ext_ex
      and r = "mkRequest ''GET'' ''/one'' [(''dl'', ''true'')] []" and key = "''dl''"]
    h l o v
  show ?thesis by simp
qed

subsection \<open>The resolve step\<close>

text \<open>
  C3, as stated, fails for the root path: when the lookup of \<open>/\<close> fails with an error
  other than not-found, the handler lists the root directory and does not answer 500.
\<close>

theorem resolve_failure_counterexample:
  "FindEntry fs_down (lookupPath (mkRequest ''GET'' ''/'' [] [])) =
     Inl (FindFailed ''connection refused'') \<and>
   FindFailed ''connection refused'' \<noteq> ErrNotFound \<and>
   GetOrHeadHandler ext_ex fs_down [] (mkRequest ''GET'' ''/'' [] []) True = [ListDirectory] \<and>
   GetOrHeadHandler ext_ex fs_down [] (mkRequest ''GET'' ''/'' [] []) True \<noteq>
     [WriteHeader StatusInternalServerError]"
  by (simp add: responder_defs responder_examples)

text \<open>
  C3, amended. When the metadata lookup of the request's path (a trailing slash removed)
  fails, the handler looks at the path first: for the root path every lookup failure,
  not-found or not, gives the root directory listing; for any other path a not-found
  result gives 404 and any other failure gives 500. Nothing else is written.
\<close>

theorem resolve_failure_cases:
  assumes "FindEntry fs (lookupPath r) = Inl err"
  shows "GetOrHeadHandler ext fs w r isGetMethod =
     (if lookupPath r = ''/'' then [ListDirectory]
      else if err = ErrNotFound then [WriteHeader StatusNotFound]
      else [WriteHeader StatusInternalServerError])"
  using assms by (simp add: GetOrHeadHandler_def)

theorem resolve_failure_cases_witness:
  "FindEntry fs_down (lookupPath (mkRequest ''GET'' ''/'' [] [])) =
     Inl (FindFailed ''connection refused'') \<and>
   GetOrHeadHandler ext_ex fs_down [] (mkRequest ''GET'' ''/'' [] []) True = [ListDirectory] \<and>
   FindEntry fs_ex (lookupPath (mkRequest ''GET'' ''/missing'' [] [])) = Inl ErrNotFound \<and>
   GetOrHeadHandler ext_ex fs_ex [] (mkRequest ''GET'' ''/missing'' [] []) True =
     [WriteHeader StatusNotFound] \<and>
   FindEntry fs_down (lookupPath (mkRequest ''GET'' ''/one'' [] [])) =
     Inl (FindFailed ''connection refused'') \<and>
   GetOrHeadHandler ext_ex fs_down [] (mkRequest ''GET'' ''/one'' [] []) True =
     [WriteHeader StatusInternalServerError]"
  using
    resolve_failure_cases [of fs_down "mkRequest ''GET'' ''/'' [] []"
      "FindFailed ''connection refused''" ext_ex "[]" True]
    resolve_failure_cases [of fs_ex "mkRequest ''GET'' ''/missing'' [] []" ErrNotFound
      ext_ex "[]" True]
    resolve_failure_cases [of fs_down "mkRequest ''GET'' ''/one'' [] []"
      "FindFailed ''connection refused''" ext_ex "[]" True]
  by (simp add: fs_down_def fs_ex_def lookupPath_def HasSuffix_def mkRequest_def)

subsection \<open>Entries without chunks\<close>

text \<open>
  C7, as stated, fails. A HEAD request for the file \<open>/empty\<close>, which has no chunks, is
  answered with 204 and nothing else: the handler sets no \<open>Content-Length\<close> header. And
  not every entry without chunks is answered with 204: the directory \<open>/dir\<close> has no
  chunks and a GET request for it is answered with its listing.
\<close>

theorem empty_file_counterexample:
  "Chunks entryEmpty = [] \<and>
   GetOrHeadHandler ext_ex fs_ex [] (mkRequest ''HEAD'' ''/empty'' [] []) False =
     [WriteHeader StatusNoContent] \<and>
   HeaderSet ''Content-Length'' ''0'' \<notin>
     set (GetOrHeadHandler ext_ex fs_ex [] (mkRequest ''HEAD'' ''/empty'' [] []) False) \<and>
   Chunks entryDir = [] \<and>
   GetOrHeadHandler ext_ex fs_ex [] (mkRequest ''GET'' ''/dir'' [] []) True = [ListDirectory]"
  by (simp add: responder_defs responder_examples)

text \<open>
  C7, amended. For every entry that is not a directory and has no chunks, requested by
  a path without a trailing slash, the handler writes the status 204 and nothing else,
  whatever the method: GET and HEAD get the same answer, and no \<open>Content-Length\<close> header
  is set.
\<close>

theorem empty_file_no_content:
  assumes "FindEntry fs (lookupPath r) = Inr entry" and "\<not> IsDirectory entry"
    and "\<not> HasSuffix (Path (URL r)) ''/''" and "Chunks entry = []"
  shows "GetOrHeadHandler ext fs w r isGetMethod = [WriteHeader StatusNoContent]"
  using assms by (simp add: GetOrHeadHandler_def)

theorem empty_file_no_content_witness:
  "FindEntry fs_ex (lookupPath (mkRequest ''GET'' ''/empty'' [] [])) = Inr entryEmpty \<and>
   FindEntry fs_ex (lookupPath (mkRequest ''HEAD'' ''/empty'' [] [])) = Inr entryEmpty \<and>
   \<not> IsDirectory entryEmpty \<and>
   \<not> HasSuffix (Path (URL (mkRequest ''GET'' ''/empty'' [] []))) ''/'' \<and>
   \<not> HasSuffix (Path (URL (mkRequest ''HEAD'' ''/empty'' [] []))) ''/'' \<and>
   Chunks entryEmpty = [] \<and>
   GetOrHeadHandler ext_ex fs_ex [] (mkRequest ''GET'' ''/empty'' [] []) True =
     [WriteHeader StatusNoContent] \<and>
   GetOrHeadHandler ext_ex fs_ex [] (mkRequest ''HEAD'' ''/empty'' [] []) False =
     [WriteHeader StatusNoContent]"
  using
    empty_file_no_content [of fs_ex "mkRequest ''GET'' ''/empty'' [] []" entryEmpty ext_ex
      "[]" True]
    empty_file_no_content [of fs_ex "mkRequest ''HEAD'' ''/empty'' [] []" entryEmpty ext_ex
      "[]" False]
  by (simp add: fs_ex_def lookupPath_def HasSuffix_def mkRequest_def entryEmpty_def)

subsection \<open>Encrypted chunks\<close>

lemma encrypted_trace:
  assumes "Chunks entry = [chunk]" and "CipherKey chunk = Some key"
    and "LookupFileId fs (FileId chunk) = Inr urlString"
    and "Do ext (proxyRequest r urlString) = Inr resp"
  shows "handleSingleChunk ext fs r entry =
     CallDo (proxyRequest r urlString) # copyHeader resp entry @
       writeEncryptedChunk ext resp entry @ [DiscardBody]"
  using assms by (simp add: handleSingleChunk_def)



text \<open>
  C9. For a file whose single chunk has a cipher key, once the request has been
  proxied (lookup and fetch succeeded): when reading the fetched body fails, or
  decrypting it fails, the handler writes the status 404 and no other status, after the
  volume server's headers; it writes no body; and the trace holds the one fetch, so
  nothing is fetched again.
\<close>

theorem decrypt_failure_is_not_found:
  assumes "Chunks entry = [chunk]" and "CipherKey chunk = Some key"
    and "LookupFileId fs (FileId chunk) = Inr urlString"
    and "Do ext (proxyRequest r urlString) = Inr resp"
    and "RespBody resp = Inl err \<or>
         (\<exists>encryptedData. RespBody resp = Inr encryptedData \<and>
            Decrypt ext encryptedData (Some key) = Inl err)"
  shows "handleSingleChunk ext fs r entry =
           CallDo (proxyRequest r urlString) # copyHeader resp entry @
             [WriteHeader StatusNotFound, DiscardBody] \<and>
         statusCodes (handleSingleChunk ext fs r entry) = [StatusNotFound] \<and>
         fetches (handleSingleChunk ext fs r entry) = [proxyRequest r urlString]"
proof -
  from assms(1,2,5) have w: "writeEncryptedChunk ext resp entry = [WriteHeader StatusNotFound]"
    by (auto simp: writeEncryptedChunk_def)
  have t: "handleSingleChunk ext fs r entry =
      CallDo (proxyRequest r urlString) # copyHeader resp entry @
        [WriteHeader StatusNotFound, DiscardBody]"
    using encrypted_trace [OF assms(1-4)] by (simp add: w)
  show ?thesis
    by (simp add: t statusCodes_Cons statusCodes_append statusCodes_copyHeader statusCodes_Nil
        fetches_Cons fetches_append fetches_copyHeader fetches_Nil)
qed

theorem decrypt_failure_is_not_found_witness:
  "Chunks entryEnc = [chunkEnc] \<and> CipherKey chunkEnc = Some ''key'' \<and>
   LookupFileId fs_ex (FileId chunkEnc) = Inr volumeUrl \<and>
   Do ext_tampered (proxyRequest (mkRequest ''GET'' ''/enc'' [] []) volumeUrl) =
     Inr (volumeAnswer\<lparr>RespBody := Inr ''broken''\<rparr>) \<and>
   RespBody (volumeAnswer\<lparr>RespBody := Inr ''broken''\<rparr>) = Inr ''broken'' \<and>
   Decrypt ext_tampered ''broken'' (Some ''key'') = Inl ''cipher: message authentication failed'' \<and>
   handleSingleChunk ext_tampered fs_ex (mkRequest ''GET'' ''/enc'' [] []) entryEnc =
     CallDo (proxyRequest (mkRequest ''GET'' ''/enc'' [] []) volumeUrl) #
       copyHeader (volumeAnswer\<lparr>RespBody := Inr ''broken''\<rparr>) entryEnc @
       [WriteHeader StatusNotFound, DiscardBody] \<and>
   statusCodes (handleSingleChunk ext_tampered fs_ex (mkRequest ''GET'' ''/enc'' [] []) entryEnc) =
     [StatusNotFound] \<and>
   fetches (handleSingleChunk ext_tampered fs_ex (mkRequest ''GET'' ''/enc'' [] []) entryEnc) =
     [proxyRequest (mkRequest ''GET'' ''/enc'' [] []) volumeUrl]"
proof -
  have h: "Chunks entryEnc = [chunkEnc]" "CipherKey chunkEnc = Some ''key''"
    "LookupFileId fs_ex (FileId chunkEnc) = Inr volumeUrl"
    "Do ext_tampered (proxyRequest (mkRequest ''GET'' ''/enc'' [] []) volumeUrl) =
       Inr (volumeAnswer\<lparr>RespBody := Inr ''broken''\<rparr>)"
    by (simp_all add: entryEnc_def chunkEnc_def fs_ex_def ext_tampered_def)
  have d: "RespBody (volumeAnswer\<lparr>RespBody := Inr ''broken''\<rparr>) = Inr ''broken''"
    "Decrypt ext_tampered ''broken'' (Some ''key'') = Inl ''cipher: message authentication failed''"
    by (simp_all add: ext_tampered_def ext_ex_def)
  from d have f: "RespBody (volumeAnswer\<lparr>RespBody := Inr ''broken''\<rparr>) =
        Inl ''cipher: message authentication failed'' \<or>
      (\<exists>encryptedData. RespBody (volumeAnswer\<lparr>RespBody := Inr ''broken''\<rparr>) = Inr encryptedData \<and>
         Decrypt ext_tampered encryptedData (Some ''key'') =
           Inl ''cipher: message authentication failed'')"
    by blast
  from decrypt_failure_is_not_found [OF h f] h d show ?thesis by blast
qed

end
